theory Spec2Isabelle
  imports Main "HOL-Library.Finite_Map"
begin

section \<open>JavaScript values and the operators the sources use\<close>

text \<open>
  The sources are TypeScript over plain JavaScript data: form values, option objects,
  error entries. A value is one of the primitives, an array, or an object with string
  keys; an object is a finite map, so two objects are equal exactly when they have the
  same keys with equal values, whatever the order the keys were written in.
  \<open>VResolver sc\<close> stands for the function value \<open>yupResolver(sc)\<close>, kept symbolic.
\<close>

datatype jsval =
    VUndefined
  | VNull
  | VBool bool
  | VNum int
  | VStr string
  | VArr "jsval list"
  | VObj "(string, jsval) fmap"
  | VResolver jsval

text \<open>
  Objects handed out by the form engine are live: the caller gets a reference, and the
  engine may later change the object behind it. A reference is an address into the
  engine's heap: an arena and an index in it.
\<close>

type_synonym ref = "nat \<times> nat"

datatype js_error = TypeError

text \<open>\<open>v == null\<close>: true of \<open>undefined\<close> and \<open>null\<close> only.\<close>

definition nullish :: "jsval \<Rightarrow> bool" where
  "nullish v \<longleftrightarrow> v = VUndefined \<or> v = VNull"

text \<open>\<open>a ?? b\<close>.\<close>

definition coalesce :: "jsval \<Rightarrow> jsval \<Rightarrow> jsval" where
  "coalesce a b = (if nullish a then b else a)"

text \<open>Reading an own data property of a value that is not nullish: \<open>undefined\<close> when absent.\<close>

fun get_prop :: "jsval \<Rightarrow> string \<Rightarrow> jsval" where
  "get_prop (VObj m) k = (case fmlookup m k of None \<Rightarrow> VUndefined | Some v \<Rightarrow> v)"
| "get_prop VUndefined k = VUndefined"
| "get_prop VNull k = VUndefined"
| "get_prop (VBool b) k = VUndefined"
| "get_prop (VNum n) k = VUndefined"
| "get_prop (VStr s) k = VUndefined"
| "get_prop (VArr xs) k = VUndefined"
| "get_prop (VResolver sc) k = VUndefined"

text \<open>\<open>v.k\<close> throws a TypeError on \<open>undefined\<close> and \<open>null\<close>; \<open>v?.k\<close> yields \<open>undefined\<close> there.\<close>

definition member :: "jsval \<Rightarrow> string \<Rightarrow> js_error + jsval" where
  "member v k = (if nullish v then Inl TypeError else Inr (get_prop v k))"

definition opt_member :: "jsval \<Rightarrow> string \<Rightarrow> jsval" where
  "opt_member v k = (if nullish v then VUndefined else get_prop v k)"

fun typeof :: "jsval \<Rightarrow> string" where
  "typeof VUndefined = ''undefined''"
| "typeof VNull = ''object''"
| "typeof (VBool b) = ''boolean''"
| "typeof (VNum n) = ''number''"
| "typeof (VStr s) = ''string''"
| "typeof (VArr xs) = ''object''"
| "typeof (VObj m) = ''object''"
| "typeof (VResolver sc) = ''function''"

text \<open>
  \<open>{...v}\<close> inside an object literal: the own properties of an object, nothing for
  \<open>undefined\<close> and \<open>null\<close>. The sources spread option objects only.
\<close>

fun spread :: "jsval \<Rightarrow> (string, jsval) fmap" where
  "spread (VObj m) = m"
| "spread VUndefined = fmempty"
| "spread VNull = fmempty"
| "spread (VBool b) = fmempty"
| "spread (VNum n) = fmempty"
| "spread (VStr s) = fmempty"
| "spread (VArr xs) = fmempty"
| "spread (VResolver sc) = fmempty"

fun truthy :: "jsval \<Rightarrow> bool" where
  "truthy VUndefined = False"
| "truthy VNull = False"
| "truthy (VBool b) = b"
| "truthy (VNum n) = (n \<noteq> 0)"
| "truthy (VStr s) = (s \<noteq> [])"
| "truthy (VArr xs) = True"
| "truthy (VObj m) = True"
| "truthy (VResolver sc) = True"

text \<open>
  lodash's \<open>isEqual\<close> is deep structural comparison; on plain data it is equality of
  values (objects being finite maps, key order plays no part).
\<close>

definition isEqual :: "jsval \<Rightarrow> jsval \<Rightarrow> bool" where
  "isEqual a b \<longleftrightarrow> a = b"

definition yupResolver :: "jsval \<Rightarrow> jsval" where
  "yupResolver sc = VResolver sc"

section \<open>The form engine as the hook sees it\<close>

text \<open>
  \<open>useForm\<close> comes from react-hook-form, which is not part of this repository. The hook
  \<open>useFormHandler\<close> uses seven members of the instance it returns; they are taken as a
  parameter, over an arbitrary type \<open>'s\<close> of engine states. A method that changes the
  form maps a state to the next one; \<open>rhf_heap\<close> reads the object behind a reference.
  \<open>getValues()\<close> and \<open>formState\<close> only read: the two calls of \<open>getValues()\<close> inside
  \<open>formState()\<close> see the same values.
\<close>

record rhf_form_state =
  fs_defaultValues :: ref
  fs_isValid :: bool
  fs_errors :: ref

record rhf_field_state =
  fld_isDirty :: bool
  fld_isTouched :: bool
  fld_invalid :: bool
  fld_error :: jsval

record 's form_instance =
  rhf_useForm :: "jsval \<Rightarrow> 's"
  rhf_setValue :: "string \<Rightarrow> jsval \<Rightarrow> jsval \<Rightarrow> 's \<Rightarrow> 's"
  rhf_getValues :: "'s \<Rightarrow> ref"
  rhf_formState :: "'s \<Rightarrow> rhf_form_state"
  rhf_getFieldState :: "string \<Rightarrow> 's \<Rightarrow> rhf_field_state"
  rhf_clearErrors :: "jsval \<Rightarrow> 's \<Rightarrow> 's"
  rhf_reset :: "jsval \<Rightarrow> jsval \<Rightarrow> 's \<Rightarrow> 's"
  rhf_heap :: "'s \<Rightarrow> ref \<Rightarrow> jsval"

section \<open>useFormHandler\<close>

text \<open>
  The hook's props; \<open>onSubmit\<close> and \<open>onError\<close> only reach \<open>handleSubmit\<close> and are left out,
  as are \<open>triggerValidation\<close> and \<open>onSubmitHandler\<close>, the asynchronous wrappers around the
  engine's \<open>trigger\<close> and \<open>handleSubmit\<close>.
\<close>

record FormHandlerProps =
  props_defaultValues :: jsval
  props_mode :: jsval
  props_schema :: jsval
  props_options :: jsval

text \<open>
  \<^verbatim>\<open>useForm<T>({ defaultValues: props.defaultValues, mode: props.mode ?? 'onChange',
    resolver: yupResolver(props.schema), ...props.options })\<close>
\<close>

definition useForm_config :: "FormHandlerProps \<Rightarrow> jsval" where
  "useForm_config props =
     VObj (fmupd ''resolver'' (yupResolver (props_schema props))
            (fmupd ''mode'' (coalesce (props_mode props) (VStr ''onChange''))
              (fmupd ''defaultValues'' (props_defaultValues props) fmempty))
           ++\<^sub>f spread (props_options props))"

definition formInstance :: "'s form_instance \<Rightarrow> FormHandlerProps \<Rightarrow> 's" where
  "formInstance inst props = rhf_useForm inst (useForm_config props)"

record SetValueProps =
  sv_name :: string
  sv_value :: jsval
  sv_options :: jsval

text \<open>
  \<^verbatim>\<open>formInstance.setValue(args.name, args.value,
    { shouldValidate: true, shouldDirty: true, ...args.options })\<close>
\<close>

definition setValue_options :: "jsval \<Rightarrow> jsval" where
  "setValue_options opts =
     VObj (fmupd ''shouldDirty'' (VBool True) (fmupd ''shouldValidate'' (VBool True) fmempty)
           ++\<^sub>f spread opts)"

definition setFormValue :: "'s form_instance \<Rightarrow> SetValueProps \<Rightarrow> 's \<Rightarrow> 's" where
  "setFormValue inst args s =
     rhf_setValue inst (sv_name args) (sv_value args) (setValue_options (sv_options args)) s"

text \<open>
  What \<open>formState()\<close> and \<open>debugMode()\<close> return. The three object-valued members are the
  references the engine handed out; the two flags are booleans.
\<close>

record FormStateView =
  defaultValues :: ref
  currentState :: ref
  isValid :: bool
  errors :: ref
  hasBeenUpdated :: bool

definition formState :: "'s form_instance \<Rightarrow> 's \<Rightarrow> FormStateView" where
  "formState inst s =
     (let fs = rhf_formState inst s in
      \<lparr> defaultValues = fs_defaultValues fs,
        currentState = rhf_getValues inst s,
        isValid = (\<not> fs_isValid fs),
        errors = fs_errors fs,
        hasBeenUpdated =
          (\<not> isEqual (rhf_heap inst s (fs_defaultValues fs))
                      (rhf_heap inst s (rhf_getValues inst s))) \<rparr>)"

record FieldStateView =
  isDirty :: bool
  isTouched :: bool
  invalid :: bool
  error :: jsval

text \<open>\<^verbatim>\<open>return { isDirty, isTouched, invalid, error: error?.message ?? '' }\<close>\<close>

definition fieldState :: "'s form_instance \<Rightarrow> string \<Rightarrow> 's \<Rightarrow> FieldStateView" where
  "fieldState inst name s =
     (let st = rhf_getFieldState inst name s in
      \<lparr> isDirty = fld_isDirty st,
        isTouched = fld_isTouched st,
        invalid = fld_invalid st,
        error = coalesce (opt_member (fld_error st) ''message'') (VStr []) \<rparr>)"

text \<open>
  Two independent tests on \<open>typeof input\<close>, then the call without argument, which runs
  whatever the tests did.
\<close>

definition clearErrors :: "'s form_instance \<Rightarrow> jsval \<Rightarrow> 's \<Rightarrow> 's" where
  "clearErrors inst input s =
     (let s1 = (if typeof input = ''string'' then rhf_clearErrors inst input s else s);
          s2 = (if typeof input = ''object'' then rhf_clearErrors inst input s1 else s1)
      in rhf_clearErrors inst VUndefined s2)"

text \<open>\<open>values != null\<close> is the loose comparison: false of \<open>undefined\<close> and of \<open>null\<close>.\<close>

definition resetForm ::
  "'s form_instance \<Rightarrow> FormHandlerProps \<Rightarrow> jsval \<Rightarrow> jsval \<Rightarrow> 's \<Rightarrow> 's" where
  "resetForm inst props vals options s =
     (if \<not> nullish vals then rhf_reset inst vals options s
      else rhf_reset inst (props_defaultValues props) options s)"

definition debugMode :: "'s form_instance \<Rightarrow> 's \<Rightarrow> FormStateView" where
  "debugMode inst s =
     (let st = formState inst s in
      \<lparr> defaultValues = defaultValues st,
        currentState = currentState st,
        isValid = (\<not> isValid st),
        errors = errors st,
        hasBeenUpdated = hasBeenUpdated st \<rparr>)"

section \<open>withBaseField\<close>

text \<open>
  An attached form handler is the object \<open>useFormHandler\<close> returned: its methods close over
  one form instance, here the engine and its state at the render. The props the wrapper
  computes itself are \<open>error\<close> and \<open>helperText\<close>; \<open>value\<close>, \<open>onChange\<close> and \<open>onBlur\<close> come from
  \<open>useWithBaseFieldHelper\<close>, and the effect that calls \<open>setInitialValue\<close> runs after the
  render.
\<close>

type_synonym 's formhandler = "'s form_instance \<times> 's"

record 's BaseFieldProps =
  formhandler :: "'s formhandler option"
  name :: string
  props_error :: jsval
  props_helperText :: jsval

record InjectedProps =
  injected_error :: jsval
  injected_helperText :: jsval

text \<open>
  \<^verbatim>\<open>error={props.formhandler?.fieldState(props.name).invalid ?? props.error}
  helperText={props.formhandler?.fieldState(props.name).error ?? props.helperText}\<close>
\<close>

definition WithFormHandlerField :: "'s BaseFieldProps \<Rightarrow> InjectedProps" where
  "WithFormHandlerField props =
     \<lparr> injected_error =
         coalesce
           (case formhandler props of
              None \<Rightarrow> VUndefined
            | Some h \<Rightarrow> VBool (invalid (fieldState (fst h) (name props) (snd h))))
           (props_error props),
       injected_helperText =
         coalesce
           (case formhandler props of
              None \<Rightarrow> VUndefined
            | Some h \<Rightarrow> error (fieldState (fst h) (name props) (snd h)))
           (props_helperText props) \<rparr>"

section \<open>The demo form's context\<close>

text \<open>
  React's \<open>createContext(d)\<close> makes a context with default \<open>d\<close>; \<open>useContext\<close> returns the
  value of the nearest enclosing provider, and the default when there is none. The
  providers around the caller are listed innermost first.
\<close>

record react_context =
  ctx_default :: jsval

definition createContext :: "jsval \<Rightarrow> react_context" where
  "createContext d = \<lparr> ctx_default = d \<rparr>"

fun useContext :: "react_context \<Rightarrow> jsval list \<Rightarrow> jsval" where
  "useContext c [] = ctx_default c"
| "useContext c (v # outer) = v"

definition DemoFormContext :: react_context where
  "DemoFormContext = createContext (VObj fmempty)"

definition useDemoFormContext :: "jsval list \<Rightarrow> jsval" where
  "useDemoFormContext providers = useContext DemoFormContext providers"

section \<open>Reading the form through the hook\<close>

text \<open>The objects behind the references \<open>formState()\<close> returns, as the heap holds them.\<close>

definition default_values :: "'s form_instance \<Rightarrow> 's \<Rightarrow> jsval" where
  "default_values inst s = rhf_heap inst s (defaultValues (formState inst s))"

definition current_values :: "'s form_instance \<Rightarrow> 's \<Rightarrow> jsval" where
  "current_values inst s = rhf_heap inst s (currentState (formState inst s))"

definition current_errors :: "'s form_instance \<Rightarrow> 's \<Rightarrow> jsval" where
  "current_errors inst s = rhf_heap inst s (errors (formState inst s))"

section \<open>What the hook relies on from the engine\<close>

text \<open>
  Some properties of the hook hold only because of what the engine does. Each such
  behaviour is named here, as a condition on the engine, and appears as a hypothesis
  where it is used.
\<close>

text \<open>A plain object, one without keys, one with a key.\<close>

fun is_object :: "jsval \<Rightarrow> bool" where
  "is_object (VObj m) = True"
| "is_object VUndefined = False"
| "is_object VNull = False"
| "is_object (VBool b) = False"
| "is_object (VNum n) = False"
| "is_object (VStr s) = False"
| "is_object (VArr xs) = False"
| "is_object (VResolver sc) = False"

fun empty_object :: "jsval \<Rightarrow> bool" where
  "empty_object (VObj m) = (fmdom' m = {})"
| "empty_object VUndefined = False"
| "empty_object VNull = False"
| "empty_object (VBool b) = False"
| "empty_object (VNum n) = False"
| "empty_object (VStr s) = False"
| "empty_object (VArr xs) = False"
| "empty_object (VResolver sc) = False"

fun nonempty_object :: "jsval \<Rightarrow> bool" where
  "nonempty_object (VObj m) = (fmdom' m \<noteq> {})"
| "nonempty_object VUndefined = False"
| "nonempty_object VNull = False"
| "nonempty_object (VBool b) = False"
| "nonempty_object (VNum n) = False"
| "nonempty_object (VStr s) = False"
| "nonempty_object (VArr xs) = False"
| "nonempty_object (VResolver sc) = False"

text \<open>Clearing without a name leaves no error.\<close>

definition clear_all_empties :: "'s form_instance \<Rightarrow> bool" where
  "clear_all_empties inst \<longleftrightarrow>
     (\<forall>s. rhf_heap inst (rhf_clearErrors inst VUndefined s)
            (fs_errors (rhf_formState inst (rhf_clearErrors inst VUndefined s))) = VObj fmempty)"

text \<open>
  A form made from a configuration whose \<open>defaultValues\<close> is an object, and which sets no
  \<open>values\<close>, has that object as its default values and as its values.
\<close>

definition useForm_installs_defaults :: "'s form_instance \<Rightarrow> bool" where
  "useForm_installs_defaults inst \<longleftrightarrow>
     (\<forall>cfg. is_object (get_prop cfg ''defaultValues'') \<and> nullish (get_prop cfg ''values'')
        \<longrightarrow> rhf_heap inst (rhf_useForm inst cfg) (rhf_getValues inst (rhf_useForm inst cfg))
              = get_prop cfg ''defaultValues''
            \<and> rhf_heap inst (rhf_useForm inst cfg)
                (fs_defaultValues (rhf_formState inst (rhf_useForm inst cfg)))
              = get_prop cfg ''defaultValues'')"

text \<open>
  A reset without options to an object \<open>v\<close> that has a key makes \<open>v\<close> the default values
  and the values.
\<close>

definition reset_installs_object :: "'s form_instance \<Rightarrow> bool" where
  "reset_installs_object inst \<longleftrightarrow>
     (\<forall>v s. nonempty_object v
        \<longrightarrow> rhf_heap inst (rhf_reset inst v VUndefined s)
                (rhf_getValues inst (rhf_reset inst v VUndefined s)) = v
            \<and> rhf_heap inst (rhf_reset inst v VUndefined s)
                (fs_defaultValues (rhf_formState inst (rhf_reset inst v VUndefined s))) = v)"

text \<open>\<open>setValue\<close> writes the value at the name and leaves the default values alone.\<close>

definition setValue_writes :: "'s form_instance \<Rightarrow> bool" where
  "setValue_writes inst \<longleftrightarrow>
     (\<forall>n v opts s.
        get_prop (rhf_heap inst (rhf_setValue inst n v opts s)
                   (rhf_getValues inst (rhf_setValue inst n v opts s))) n = v
        \<and> rhf_heap inst (rhf_setValue inst n v opts s)
             (fs_defaultValues (rhf_formState inst (rhf_setValue inst n v opts s)))
          = rhf_heap inst s (fs_defaultValues (rhf_formState inst s)))"

text \<open>
  \<open>setValue\<close> with a true \<open>shouldDirty\<close> marks the field dirty when the value differs from
  the field's default.
\<close>

definition setValue_marks_dirty :: "'s form_instance \<Rightarrow> bool" where
  "setValue_marks_dirty inst \<longleftrightarrow>
     (\<forall>n v opts s.
        truthy (get_prop opts ''shouldDirty'')
        \<and> get_prop (rhf_heap inst s (fs_defaultValues (rhf_formState inst s))) n \<noteq> v
        \<longrightarrow> fld_isDirty (rhf_getFieldState inst n (rhf_setValue inst n v opts s)))"

section \<open>A reference engine\<close>

text \<open>
  A small executable engine with the behaviour of react-hook-form 7, to run the hook on
  concrete forms; it shows the form as it is after the render that follows each call.
  Field names are top-level keys. The engine keeps its default values, its own values
  \<open>st_formValues\<close>, and two errors objects: the one it works on, and the one of the state
  it last published, which is what \<open>formState\<close> hands out. A new form has published an
  errors object of its own; from the first update on, the published object is the one
  the engine works on, and the errors of single fields are set and removed inside it.
  \<open>getValues()\<close> returns a new object each time, the default values overlaid with the
  engine's values. In the heap the default values are in arena 0, the objects
  \<open>getValues()\<close> returns in arena 1, the errors objects in arena 2. A schema maps a field
  name to the message of its \<open>required\<close> rule, which rejects \<open>undefined\<close>, \<open>null\<close> and the
  empty string.
\<close>

record engine_state =
  st_heap :: "ref \<Rightarrow> jsval"
  st_defaults :: nat
  st_formValues :: jsval
  st_values :: nat
  st_errors :: nat
  st_state_errors :: nat
  st_dirty :: "string set"
  st_touched :: "string set"
  st_valid :: bool
  st_schema :: jsval

fun set_prop :: "jsval \<Rightarrow> string \<Rightarrow> jsval \<Rightarrow> jsval" where
  "set_prop (VObj m) k v = VObj (fmupd k v m)"
| "set_prop VUndefined k v = VObj (fmupd k v fmempty)"
| "set_prop VNull k v = VObj (fmupd k v fmempty)"
| "set_prop (VBool b) k v = VObj (fmupd k v fmempty)"
| "set_prop (VNum n) k v = VObj (fmupd k v fmempty)"
| "set_prop (VStr s) k v = VObj (fmupd k v fmempty)"
| "set_prop (VArr xs) k v = VObj (fmupd k v fmempty)"
| "set_prop (VResolver sc) k v = VObj (fmupd k v fmempty)"

fun unset_prop :: "jsval \<Rightarrow> string \<Rightarrow> jsval" where
  "unset_prop (VObj m) k = VObj (fmdrop k m)"
| "unset_prop VUndefined k = VUndefined"
| "unset_prop VNull k = VNull"
| "unset_prop (VBool b) k = VBool b"
| "unset_prop (VNum n) k = VNum n"
| "unset_prop (VStr s) k = VStr s"
| "unset_prop (VArr xs) k = VArr xs"
| "unset_prop (VResolver sc) k = VResolver sc"

text \<open>\<open>{...d, ...fv}\<close>: what \<open>getValues()\<close> builds from the default values and the values.\<close>

definition overlay :: "jsval \<Rightarrow> jsval \<Rightarrow> jsval" where
  "overlay d fv = VObj (spread d ++\<^sub>f spread fv)"

definition field_missing :: "jsval \<Rightarrow> string \<Rightarrow> bool" where
  "field_missing vals k \<longleftrightarrow> nullish (get_prop vals k) \<or> get_prop vals k = VStr []"

definition field_error :: "jsval \<Rightarrow> jsval \<Rightarrow> string \<Rightarrow> jsval" where
  "field_error sc vals k =
     (if truthy (get_prop sc k) \<and> field_missing vals k
      then VObj (fmupd ''message'' (get_prop sc k) (fmupd ''type'' (VStr ''required'') fmempty))
      else VUndefined)"

definition schema_ok :: "jsval \<Rightarrow> jsval \<Rightarrow> bool" where
  "schema_ok sc vals \<longleftrightarrow> (\<forall>k \<in> fmdom' (spread sc). \<not> field_missing vals k)"

text \<open>
  The fields a reset that keeps the default values \<open>d\<close> marks dirty for the new values
  \<open>v\<close>: the keys new in \<open>v\<close>, and the keys of \<open>d\<close> whose value differs.
\<close>

definition changed_fields :: "jsval \<Rightarrow> jsval \<Rightarrow> string set" where
  "changed_fields d v =
     {k \<in> fmdom' (spread v). k \<notin> fmdom' (spread d)}
     \<union> {k \<in> fmdom' (spread d). get_prop d k \<noteq> get_prop v k}"

fun resolver_schema :: "jsval \<Rightarrow> jsval" where
  "resolver_schema (VResolver sc) = sc"
| "resolver_schema VUndefined = VUndefined"
| "resolver_schema VNull = VUndefined"
| "resolver_schema (VBool b) = VUndefined"
| "resolver_schema (VNum n) = VUndefined"
| "resolver_schema (VStr s) = VUndefined"
| "resolver_schema (VArr xs) = VUndefined"
| "resolver_schema (VObj m) = VUndefined"

text \<open>
  The engine's values start as a copy of the default values. The published errors object
  \<open>(2, 0)\<close> and the engine's own \<open>(2, 1)\<close> are two objects.
\<close>

definition ref_useForm :: "jsval \<Rightarrow> engine_state" where
  "ref_useForm cfg =
     \<lparr> st_heap = (\<lambda>r. VUndefined)
         ((0, 0) := get_prop cfg ''defaultValues'',
          (1, 0) := overlay (get_prop cfg ''defaultValues'')
                      (VObj (spread (get_prop cfg ''defaultValues''))),
          (2, 0) := VObj fmempty,
          (2, 1) := VObj fmempty),
       st_defaults = 0,
       st_formValues = VObj (spread (get_prop cfg ''defaultValues'')),
       st_values = 0, st_errors = 1, st_state_errors = 0,
       st_dirty = {}, st_touched = {},
       st_valid = schema_ok (resolver_schema (get_prop cfg ''resolver''))
                    (VObj (spread (get_prop cfg ''defaultValues''))),
       st_schema = resolver_schema (get_prop cfg ''resolver'') \<rparr>"

definition ref_getValues :: "engine_state \<Rightarrow> ref" where
  "ref_getValues s = (1, st_values s)"

definition ref_formState :: "engine_state \<Rightarrow> rhf_form_state" where
  "ref_formState s =
     \<lparr> fs_defaultValues = (0, st_defaults s), fs_isValid = st_valid s,
       fs_errors = (2, st_state_errors s) \<rparr>"

text \<open>\<open>getFieldState\<close> reads the errors object the engine works on.\<close>

definition ref_getFieldState :: "string \<Rightarrow> engine_state \<Rightarrow> rhf_field_state" where
  "ref_getFieldState n s =
     \<lparr> fld_isDirty = (n \<in> st_dirty s),
       fld_isTouched = (n \<in> st_touched s),
       fld_invalid = truthy (get_prop (st_heap s (2, st_errors s)) n),
       fld_error = get_prop (st_heap s (2, st_errors s)) n \<rparr>"

text \<open>
  The value is written into the engine's values. With \<open>shouldValidate\<close> the field's error
  is set or removed inside the errors object the engine works on, and the state is
  published.
\<close>

definition ref_setValue :: "string \<Rightarrow> jsval \<Rightarrow> jsval \<Rightarrow> engine_state \<Rightarrow> engine_state" where
  "ref_setValue n v opts s =
     (let fv = set_prop (st_formValues s) n v;
          h1 = (st_heap s)((1, Suc (st_values s)) := overlay (st_heap s (0, st_defaults s)) fv);
          e = field_error (st_schema s) fv n;
          h2 = (if truthy (get_prop opts ''shouldValidate'')
                then h1((2, st_errors s) :=
                       (if nullish e then unset_prop (h1 (2, st_errors s)) n
                        else set_prop (h1 (2, st_errors s)) n e))
                else h1)
      in s\<lparr> st_heap := h2,
            st_formValues := fv,
            st_values := Suc (st_values s),
            st_state_errors :=
              (if truthy (get_prop opts ''shouldValidate'')
               then st_errors s else st_state_errors s),
            st_dirty :=
              (if truthy (get_prop opts ''shouldDirty'')
               then (if get_prop (st_heap s (0, st_defaults s)) n = v
                     then st_dirty s - {n} else insert n (st_dirty s))
               else st_dirty s),
            st_touched :=
              (if truthy (get_prop opts ''shouldTouch'')
               then insert n (st_touched s) else st_touched s),
            st_valid :=
              (if truthy (get_prop opts ''shouldValidate'')
               then schema_ok (st_schema s) fv else st_valid s) \<rparr>)"

fun string_of :: "jsval \<Rightarrow> string list" where
  "string_of (VStr n) = [n]"
| "string_of VUndefined = []"
| "string_of VNull = []"
| "string_of (VBool b) = []"
| "string_of (VNum n) = []"
| "string_of (VArr xs) = []"
| "string_of (VObj m) = []"
| "string_of (VResolver sc) = []"

fun names_of :: "jsval \<Rightarrow> string list" where
  "names_of (VArr xs) = concat (map string_of xs)"
| "names_of (VStr n) = [n]"
| "names_of VUndefined = []"
| "names_of VNull = []"
| "names_of (VBool b) = []"
| "names_of (VNum n) = []"
| "names_of (VObj m) = []"
| "names_of (VResolver sc) = []"

text \<open>
  With names, the named errors are removed inside the errors object the engine works
  on; without, the engine takes a new empty errors object. Either way the state is
  published.
\<close>

definition ref_clearErrors :: "jsval \<Rightarrow> engine_state \<Rightarrow> engine_state" where
  "ref_clearErrors arg s =
     (if truthy arg
      then s\<lparr> st_heap := (st_heap s)((2, st_errors s) :=
                foldl unset_prop (st_heap s (2, st_errors s)) (names_of arg)),
              st_state_errors := st_errors s \<rparr>
      else s\<lparr> st_heap := (st_heap s)
                ((2, Suc (max (st_errors s) (st_state_errors s))) := VObj fmempty),
              st_errors := Suc (max (st_errors s) (st_state_errors s)),
              st_state_errors := Suc (max (st_errors s) (st_state_errors s)) \<rparr>)"

text \<open>
  A reset: the new default values are the values given, or the old default values when
  none are given; the new values are the same, except that a reset to the empty object
  takes the old default values as the values. \<open>keepDefaultValues\<close>, \<open>keepValues\<close>,
  \<open>keepErrors\<close>, \<open>keepTouched\<close> and \<open>keepIsValid\<close> each leave their slice of the state as it
  is. Validity is computed anew from the values unless kept. No field stays dirty,
  except that a reset keeping the default values marks the fields whose new value
  differs from the default. The options \<open>keepDirtyValues\<close> and the engine option
  \<open>shouldUnregister\<close> are not modelled.
\<close>

definition ref_reset :: "jsval \<Rightarrow> jsval \<Rightarrow> engine_state \<Rightarrow> engine_state" where
  "ref_reset v opts s =
     (let old = st_heap s (0, st_defaults s);
          updated = (if truthy v then v else old);
          vals = (if empty_object v then old else updated);
          keepD = truthy (get_prop opts ''keepDefaultValues'');
          keepE = truthy (get_prop opts ''keepErrors'');
          d = (if keepD then old else updated);
          fv = (if truthy (get_prop opts ''keepValues'') then st_formValues s else vals);
          r = Suc (max (st_errors s) (st_state_errors s));
          h1 = (if keepD then st_heap s else (st_heap s)((0, Suc (st_defaults s)) := d));
          h2 = h1((1, Suc (st_values s)) := overlay d fv);
          h3 = (if keepE then h2 else h2((2, r) := VObj fmempty))
      in \<lparr> st_heap = h3,
           st_defaults = (if keepD then st_defaults s else Suc (st_defaults s)),
           st_formValues = fv,
           st_values = Suc (st_values s),
           st_errors = (if keepE then st_errors s else r),
           st_state_errors = (if keepE then st_errors s else r),
           st_dirty = (if keepD \<and> truthy v \<and> \<not> empty_object v
                       then changed_fields old v else {}),
           st_touched = (if truthy (get_prop opts ''keepTouched'') then st_touched s else {}),
           st_valid = (if truthy (get_prop opts ''keepIsValid'') then st_valid s
                       else schema_ok (st_schema s) fv),
           st_schema = st_schema s \<rparr>)"

definition ref_engine :: "engine_state form_instance" where
  "ref_engine =
     \<lparr> rhf_useForm = ref_useForm,
       rhf_setValue = ref_setValue,
       rhf_getValues = ref_getValues,
       rhf_formState = ref_formState,
       rhf_getFieldState = ref_getFieldState,
       rhf_clearErrors = ref_clearErrors,
       rhf_reset = ref_reset,
       rhf_heap = st_heap \<rparr>"

text \<open>
  The form of the hook's own usage example: two text fields, both required, both
  empty at the start.
\<close>

definition demo_props :: FormHandlerProps where
  "demo_props =
     \<lparr> props_defaultValues =
         VObj (fmupd ''name'' (VStr []) (fmupd ''lastName'' (VStr []) fmempty)),
       props_mode = VUndefined,
       props_schema =
         VObj (fmupd ''name'' (VStr ''This field is required'')
                (fmupd ''lastName'' (VStr ''This field is required'') fmempty)),
       props_options = VUndefined \<rparr>"

definition demo_form :: engine_state where
  "demo_form = formInstance ref_engine demo_props"

definition write_name :: "string \<Rightarrow> SetValueProps" where
  "write_name v = \<lparr> sv_name = ''name'', sv_value = VStr v, sv_options = VUndefined \<rparr>"

text \<open>The demo form after \<open>Ada\<close> has been written into \<open>name\<close>.\<close>

definition ada_form :: engine_state where
  "ada_form = setFormValue ref_engine (write_name ''Ada'') demo_form"

text \<open>A form without fields: the default values are the empty object, the schema has no rule.\<close>

definition empty_props :: FormHandlerProps where
  "empty_props =
     \<lparr> props_defaultValues = VObj fmempty, props_mode = VUndefined,
       props_schema = VObj fmempty, props_options = VUndefined \<rparr>"

section \<open>Facts about the operators and the reference engine\<close>

lemmas hook_defs = formInstance_def useForm_config_def setFormValue_def setValue_options_def
  formState_def fieldState_def clearErrors_def resetForm_def debugMode_def
  default_values_def current_values_def current_errors_def

lemmas js_defs = nullish_def coalesce_def opt_member_def member_def isEqual_def yupResolver_def
  field_missing_def field_error_def schema_ok_def overlay_def

lemmas ref_defs = ref_engine_def ref_useForm_def ref_getValues_def ref_formState_def
  ref_getFieldState_def ref_setValue_def ref_clearErrors_def ref_reset_def

lemmas demo_defs = demo_form_def demo_props_def write_name_def ada_form_def empty_props_def

text \<open>A key of the spread object wins over the same key written before the spread.\<close>

lemma get_prop_add:
  "get_prop (VObj (m ++\<^sub>f n)) k
     = (case fmlookup n k of None \<Rightarrow> get_prop (VObj m) k | Some v \<Rightarrow> v)"
  by (auto simp add: fmlookup_dom_iff split: option.split)

lemma lookup_spread_set_prop: "fmlookup (spread (set_prop x n v)) n = Some v"
  by (cases x) simp_all

lemma get_overlay_set_prop: "get_prop (overlay d (set_prop x n v)) n = v"
  unfolding overlay_def get_prop_add by (simp add: lookup_spread_set_prop)

lemma overlay_object: "is_object v \<Longrightarrow> overlay v (VObj (spread v)) = v"
  by (cases v) (simp_all add: overlay_def)

lemma overlay_self: "is_object v \<Longrightarrow> overlay v v = v"
  by (cases v) (simp_all add: overlay_def)

lemma nonempty_object_facts:
  "nonempty_object v \<Longrightarrow> is_object v \<and> truthy v \<and> \<not> empty_object v"
  by (cases v) simp_all

lemma fieldState_error_not_nullish: "\<not> nullish (error (fieldState inst n s))"
  by (simp add: fieldState_def Let_def coalesce_def nullish_def)

text \<open>The reference engine behaves as the hook expects of an engine.\<close>

lemma ref_clear_all_empties: "clear_all_empties ref_engine"
  by (simp add: clear_all_empties_def ref_defs)

lemma ref_useForm_installs_defaults: "useForm_installs_defaults ref_engine"
  by (simp add: useForm_installs_defaults_def ref_defs overlay_object)

lemma ref_reset_installs_object: "reset_installs_object ref_engine"
  unfolding reset_installs_object_def
proof (intro allI impI)
  fix v s
  assume "nonempty_object v"
  then have "is_object v" "truthy v" "\<not> empty_object v"
    using nonempty_object_facts by blast+
  then show "rhf_heap ref_engine (rhf_reset ref_engine v VUndefined s)
                (rhf_getValues ref_engine (rhf_reset ref_engine v VUndefined s)) = v
            \<and> rhf_heap ref_engine (rhf_reset ref_engine v VUndefined s)
                (fs_defaultValues (rhf_formState ref_engine (rhf_reset ref_engine v VUndefined s))) = v"
    by (simp add: ref_defs Let_def overlay_self)
qed

lemma ref_setValue_writes: "setValue_writes ref_engine"
  by (simp add: setValue_writes_def ref_defs Let_def get_overlay_set_prop)

lemma ref_setValue_marks_dirty: "setValue_marks_dirty ref_engine"
  by (simp add: setValue_marks_dirty_def ref_defs Let_def)

section \<open>formState\<close>

text \<open>
  C1. For every form handler, \<open>formState()\<close> returns the engine's default values, the live
  values and the engine's errors, and as \<open>isValid\<close> the negation of the engine's validity
  flag: \<open>isValid\<close> is true exactly when the engine holds the form invalid.
\<close>

theorem formState_inverts_validity:
  "isValid (formState inst s) = (\<not> fs_isValid (rhf_formState inst s))
   \<and> defaultValues (formState inst s) = fs_defaultValues (rhf_formState inst s)
   \<and> currentState (formState inst s) = rhf_getValues inst s
   \<and> errors (formState inst s) = fs_errors (rhf_formState inst s)"
  by (simp add: formState_def Let_def)

text \<open>
  The demo form starts with both required fields empty, so the engine holds it invalid:
  \<open>isValid\<close> is true at the start and false once both fields are filled in.
\<close>

theorem formState_inverts_validity_witness:
  "isValid (formState ref_engine demo_form)
   \<and> \<not> isValid (formState ref_engine
         (setFormValue ref_engine
            \<lparr> sv_name = ''lastName'', sv_value = VStr ''Lovelace'', sv_options = VUndefined \<rparr>
            (setFormValue ref_engine (write_name ''Ada'') demo_form)))"
  using formState_inverts_validity [of ref_engine demo_form]
    formState_inverts_validity
      [of ref_engine
          "setFormValue ref_engine
             \<lparr> sv_name = ''lastName'', sv_value = VStr ''Lovelace'', sv_options = VUndefined \<rparr>
             (setFormValue ref_engine (write_name ''Ada'') demo_form)"]
  by (simp add: hook_defs js_defs demo_defs ref_defs Let_def)

section \<open>clearErrors\<close>

text \<open>
  C2. Whatever the input, \<open>clearErrors(input)\<close> ends with the engine's clear without a
  name, run after the targeted clear when the input is a string or an object. With an
  engine whose clear without a name leaves no error, the errors after
  \<open>clearErrors(input)\<close> are therefore the errors after \<open>clearErrors()\<close>.
\<close>

theorem clearErrors_ends_in_clear_all:
  "clearErrors inst input s =
     rhf_clearErrors inst VUndefined
       (if typeof input = ''string'' \<or> typeof input = ''object''
        then rhf_clearErrors inst input s else s)
   \<and> (clear_all_empties inst \<longrightarrow>
        current_errors inst (clearErrors inst input s)
          = current_errors inst (clearErrors inst VUndefined s))"
proof
  show "clearErrors inst input s =
     rhf_clearErrors inst VUndefined
       (if typeof input = ''string'' \<or> typeof input = ''object''
        then rhf_clearErrors inst input s else s)"
    by (cases input) (simp_all add: clearErrors_def)
  show "clear_all_empties inst \<longrightarrow>
        current_errors inst (clearErrors inst input s)
          = current_errors inst (clearErrors inst VUndefined s)"
    by (simp add: clear_all_empties_def clearErrors_def current_errors_def formState_def Let_def)
qed

theorem clearErrors_ends_in_clear_all_witness:
  "current_errors ref_engine
     (clearErrors ref_engine (VStr ''name'') (setFormValue ref_engine (write_name []) demo_form))
   = current_errors ref_engine
       (clearErrors ref_engine VUndefined (setFormValue ref_engine (write_name []) demo_form))"
  using clearErrors_ends_in_clear_all
          [of ref_engine "VStr ''name''" "setFormValue ref_engine (write_name []) demo_form"]
        ref_clear_all_empties
  by blast

section \<open>debugMode\<close>

text \<open>
  C3, as the code has it. \<open>debugMode()\<close> returns a new object of the shape of
  \<open>formState()\<close>: the result of one call of \<open>formState()\<close> with \<open>isValid\<close> negated. It copies
  nothing itself: its \<open>defaultValues\<close>, \<open>currentState\<close> and \<open>errors\<close> are the references
  that call returned, and \<open>errors\<close> is the errors object of the engine's form state. So
  as long as the engine keeps that errors object, what a snapshot taken in state \<open>s\<close>
  shows as errors in a later state \<open>s'\<close> is the errors of \<open>s'\<close>.
\<close>

theorem debugMode_shares_references:
  "debugMode inst s = (formState inst s)\<lparr> isValid := \<not> isValid (formState inst s) \<rparr>
   \<and> defaultValues (debugMode inst s) = fs_defaultValues (rhf_formState inst s)
   \<and> currentState (debugMode inst s) = rhf_getValues inst s
   \<and> errors (debugMode inst s) = fs_errors (rhf_formState inst s)
   \<and> (fs_errors (rhf_formState inst s') = fs_errors (rhf_formState inst s) \<longrightarrow>
        rhf_heap inst s' (errors (debugMode inst s)) = current_errors inst s')"
  by (simp add: debugMode_def formState_def current_errors_def Let_def)

text \<open>
  Once \<open>Ada\<close> has been written into \<open>name\<close>, the engine publishes the errors object it
  works on and keeps it through the next write.
\<close>

theorem debugMode_shares_references_witness:
  "rhf_heap ref_engine (setFormValue ref_engine (write_name []) ada_form)
     (errors (debugMode ref_engine ada_form))
   = current_errors ref_engine (setFormValue ref_engine (write_name []) ada_form)"
proof -
  have "fs_errors (rhf_formState ref_engine (setFormValue ref_engine (write_name []) ada_form))
        = fs_errors (rhf_formState ref_engine ada_form)"
    by (simp add: hook_defs demo_defs ref_defs Let_def)
  with debugMode_shares_references
         [of ref_engine ada_form "setFormValue ref_engine (write_name []) ada_form"]
  show ?thesis by blast
qed

text \<open>
  C3 as stated fails: the errors of a snapshot are not decoupled from the form. Write
  \<open>Ada\<close> into \<open>name\<close> and take the snapshot: its errors object is empty. Then write the
  empty string into \<open>name\<close>, which is required. The engine records the error inside its
  errors object, and the errors of the snapshot taken before now show it.
\<close>

theorem debugMode_snapshot_counterexample:
  "rhf_heap ref_engine ada_form (errors (debugMode ref_engine ada_form)) = VObj fmempty
   \<and> get_prop
       (get_prop
          (rhf_heap ref_engine (setFormValue ref_engine (write_name []) ada_form)
             (errors (debugMode ref_engine ada_form)))
          ''name'')
       ''message''
     = VStr ''This field is required''"
  by (simp add: hook_defs js_defs demo_defs ref_defs Let_def)

text \<open>
  C9. \<open>debugMode()\<close> negates the flag of \<open>formState()\<close> once more: it reports the engine's
  validity flag itself, and the two operations never agree on \<open>isValid\<close>.
\<close>

theorem debugMode_isValid_opposite:
  "isValid (debugMode inst s) = (\<not> isValid (formState inst s))
   \<and> isValid (debugMode inst s) = fs_isValid (rhf_formState inst s)
   \<and> isValid (debugMode inst s) \<noteq> isValid (formState inst s)"
  by (simp add: debugMode_def formState_def Let_def)

theorem debugMode_isValid_opposite_witness:
  "\<not> isValid (debugMode ref_engine demo_form) \<and> isValid (formState ref_engine demo_form)"
  using debugMode_isValid_opposite [of ref_engine demo_form]
  by (simp add: hook_defs js_defs demo_defs ref_defs Let_def)

section \<open>hasBeenUpdated\<close>

text \<open>
  C4, as the code has it. \<open>formState().hasBeenUpdated\<close> is true exactly when the current
  values are not deeply equal to the default values. It is false for the form the hook
  has just constructed when the \<open>defaultValues\<close> the hook passes to the engine are an
  object and no \<open>values\<close> are configured; false after \<open>resetForm()\<close> without arguments when
  the default values of the props are an object with a key; and true after a
  \<open>setFormValue\<close> that writes into a field a value other than the field's default. Each
  of the three rests on what the engine does at construction, at a reset without
  options, and at \<open>setValue\<close>.
\<close>

theorem hasBeenUpdated_iff_values_differ:
  "hasBeenUpdated (formState inst s)
     = (\<not> isEqual (default_values inst s) (current_values inst s))
   \<and> (useForm_installs_defaults inst
        \<and> is_object (get_prop (useForm_config props) ''defaultValues'')
        \<and> nullish (get_prop (useForm_config props) ''values'')
        \<longrightarrow> \<not> hasBeenUpdated (formState inst (formInstance inst props)))
   \<and> (reset_installs_object inst \<and> nonempty_object (props_defaultValues props)
        \<longrightarrow> \<not> hasBeenUpdated (formState inst (resetForm inst props VUndefined VUndefined s)))
   \<and> (setValue_writes inst \<and> get_prop (default_values inst s) (sv_name args) \<noteq> sv_value args
        \<longrightarrow> hasBeenUpdated (formState inst (setFormValue inst args s)))"
proof (intro conjI impI)
  show "hasBeenUpdated (formState inst s)
          = (\<not> isEqual (default_values inst s) (current_values inst s))"
    by (simp add: formState_def default_values_def current_values_def Let_def)
next
  let ?cfg = "useForm_config props"
  let ?s0 = "rhf_useForm inst ?cfg"
  assume a: "useForm_installs_defaults inst
        \<and> is_object (get_prop ?cfg ''defaultValues'')
        \<and> nullish (get_prop ?cfg ''values'')"
  then have "rhf_heap inst ?s0 (rhf_getValues inst ?s0) = get_prop ?cfg ''defaultValues''"
    and "rhf_heap inst ?s0 (fs_defaultValues (rhf_formState inst ?s0))
           = get_prop ?cfg ''defaultValues''"
    unfolding useForm_installs_defaults_def by blast+
  then show "\<not> hasBeenUpdated (formState inst (formInstance inst props))"
    by (simp add: formState_def formInstance_def isEqual_def Let_def)
next
  let ?d = "props_defaultValues props"
  let ?s' = "rhf_reset inst ?d VUndefined s"
  assume a: "reset_installs_object inst \<and> nonempty_object ?d"
  then have "rhf_heap inst ?s' (rhf_getValues inst ?s') = ?d"
    and "rhf_heap inst ?s' (fs_defaultValues (rhf_formState inst ?s')) = ?d"
    unfolding reset_installs_object_def by blast+
  then show "\<not> hasBeenUpdated (formState inst (resetForm inst props VUndefined VUndefined s))"
    by (simp add: formState_def resetForm_def isEqual_def nullish_def Let_def)
next
  assume a: "setValue_writes inst
             \<and> get_prop (default_values inst s) (sv_name args) \<noteq> sv_value args"
  let ?s' = "setFormValue inst args s"
  from a have w: "get_prop (current_values inst ?s') (sv_name args) = sv_value args"
    and d: "default_values inst ?s' = default_values inst s"
    by (simp_all add: setValue_writes_def setFormValue_def current_values_def
          default_values_def formState_def Let_def)
  have "default_values inst ?s' \<noteq> current_values inst ?s'"
  proof
    assume "default_values inst ?s' = current_values inst ?s'"
    with w d have "get_prop (default_values inst s) (sv_name args) = sv_value args" by simp
    with a show False by simp
  qed
  then show "hasBeenUpdated (formState inst ?s')"
    by (simp add: formState_def default_values_def current_values_def isEqual_def Let_def)
qed

theorem hasBeenUpdated_iff_values_differ_witness:
  "\<not> hasBeenUpdated (formState ref_engine demo_form)
   \<and> hasBeenUpdated (formState ref_engine ada_form)
   \<and> \<not> hasBeenUpdated (formState ref_engine
          (resetForm ref_engine demo_props VUndefined VUndefined ada_form))"
proof -
  have 1: "is_object (get_prop (useForm_config demo_props) ''defaultValues'')
           \<and> nullish (get_prop (useForm_config demo_props) ''values'')"
    by (simp add: useForm_config_def demo_props_def nullish_def)
  have 2: "nonempty_object (props_defaultValues demo_props)"
    by (simp add: demo_props_def)
  have 3: "get_prop (default_values ref_engine demo_form) (sv_name (write_name ''Ada''))
          \<noteq> sv_value (write_name ''Ada'')"
    by (simp add: hook_defs js_defs demo_defs ref_defs Let_def)
  from 1 2 3
    hasBeenUpdated_iff_values_differ
      [of ref_engine demo_form demo_props "write_name ''Ada''"]
    hasBeenUpdated_iff_values_differ
      [of ref_engine ada_form demo_props]
    ref_useForm_installs_defaults ref_reset_installs_object ref_setValue_writes
  show ?thesis unfolding demo_form_def ada_form_def by blast
qed

text \<open>
  C4 as stated fails after \<open>resetForm()\<close> when the default values of the props are the
  empty object. The hook resets the engine to \<open>{}\<close>, and a reset to the empty object makes
  \<open>{}\<close> the default values but takes the engine's previous default values as the values.
  After \<open>resetForm({name: 'Bob'})\<close> these are \<open>{name: 'Bob'}\<close>, so \<open>resetForm()\<close> leaves
  \<open>hasBeenUpdated\<close> true.
\<close>

theorem hasBeenUpdated_after_reset_counterexample:
  "hasBeenUpdated (formState ref_engine
     (resetForm ref_engine empty_props VUndefined VUndefined
        (resetForm ref_engine empty_props (VObj (fmupd ''name'' (VStr ''Bob'') fmempty)) VUndefined
           (formInstance ref_engine empty_props))))"
proof -
  let ?s = "resetForm ref_engine empty_props VUndefined VUndefined
        (resetForm ref_engine empty_props (VObj (fmupd ''name'' (VStr ''Bob'') fmempty)) VUndefined
           (formInstance ref_engine empty_props))"
  have "get_prop (default_values ref_engine ?s) ''name'' = VUndefined"
    by (simp add: hook_defs js_defs demo_defs ref_defs Let_def)
  moreover have "get_prop (current_values ref_engine ?s) ''name'' = VStr ''Bob''"
    by (simp add: hook_defs js_defs demo_defs ref_defs Let_def)
  ultimately have "default_values ref_engine ?s \<noteq> current_values ref_engine ?s"
    by auto
  then show ?thesis
    by (simp add: formState_def default_values_def current_values_def isEqual_def Let_def)
qed

section \<open>resetForm\<close>




section \<open>setFormValue\<close>

text \<open>
  C6, as the code has it. \<open>setFormValue\<close> calls the engine's \<open>setValue\<close> with the name, the
  value and the options \<open>{shouldValidate: true, shouldDirty: true, ...options}\<close>: each of
  the two flags is true unless the caller's options carry its key, and then it is the
  caller's value. Afterwards the written value is in \<open>formState().currentState\<close> under the
  name, when \<open>setValue\<close> writes it there; and \<open>fieldState(name)\<close> reports the field dirty
  when the flag \<open>shouldDirty\<close> that reaches the engine is true and the value differs from
  the field's default, with an engine that marks such a field dirty.
\<close>

theorem setFormValue_defaults_and_overrides:
  "setFormValue inst args s
     = rhf_setValue inst (sv_name args) (sv_value args) (setValue_options (sv_options args)) s
   \<and> get_prop (setValue_options (sv_options args)) ''shouldDirty''
       = (case fmlookup (spread (sv_options args)) ''shouldDirty'' of
            None \<Rightarrow> VBool True | Some v \<Rightarrow> v)
   \<and> get_prop (setValue_options (sv_options args)) ''shouldValidate''
       = (case fmlookup (spread (sv_options args)) ''shouldValidate'' of
            None \<Rightarrow> VBool True | Some v \<Rightarrow> v)
   \<and> (setValue_writes inst \<longrightarrow>
        get_prop (current_values inst (setFormValue inst args s)) (sv_name args) = sv_value args)
   \<and> (setValue_marks_dirty inst
        \<and> truthy (get_prop (setValue_options (sv_options args)) ''shouldDirty'')
        \<and> get_prop (default_values inst s) (sv_name args) \<noteq> sv_value args
        \<longrightarrow> isDirty (fieldState inst (sv_name args) (setFormValue inst args s)))"
proof (intro conjI impI)
  show "setFormValue inst args s
     = rhf_setValue inst (sv_name args) (sv_value args) (setValue_options (sv_options args)) s"
    by (simp add: setFormValue_def)
  show "get_prop (setValue_options (sv_options args)) ''shouldDirty''
       = (case fmlookup (spread (sv_options args)) ''shouldDirty'' of
            None \<Rightarrow> VBool True | Some v \<Rightarrow> v)"
    unfolding setValue_options_def get_prop_add by (simp split: option.split)
  show "get_prop (setValue_options (sv_options args)) ''shouldValidate''
       = (case fmlookup (spread (sv_options args)) ''shouldValidate'' of
            None \<Rightarrow> VBool True | Some v \<Rightarrow> v)"
    unfolding setValue_options_def get_prop_add by (simp split: option.split)
next
  assume "setValue_writes inst"
  then show "get_prop (current_values inst (setFormValue inst args s)) (sv_name args)
               = sv_value args"
    by (simp add: setValue_writes_def setFormValue_def current_values_def formState_def Let_def)
next
  assume a: "setValue_marks_dirty inst
        \<and> truthy (get_prop (setValue_options (sv_options args)) ''shouldDirty'')
        \<and> get_prop (default_values inst s) (sv_name args) \<noteq> sv_value args"
  then have "fld_isDirty (rhf_getFieldState inst (sv_name args)
               (rhf_setValue inst (sv_name args) (sv_value args)
                  (setValue_options (sv_options args)) s))"
    unfolding setValue_marks_dirty_def default_values_def formState_def Let_def
    by simp
  then show "isDirty (fieldState inst (sv_name args) (setFormValue inst args s))"
    by (simp add: fieldState_def setFormValue_def Let_def)
qed

theorem setFormValue_defaults_and_overrides_witness:
  "get_prop (current_values ref_engine (setFormValue ref_engine (write_name ''Ada'') demo_form))
     ''name'' = VStr ''Ada''
   \<and> isDirty (fieldState ref_engine ''name''
               (setFormValue ref_engine (write_name ''Ada'') demo_form))"
proof -
  have "truthy (get_prop (setValue_options (sv_options (write_name ''Ada''))) ''shouldDirty'')"
    by (simp add: setValue_options_def write_name_def)
  moreover
  have "get_prop (default_values ref_engine demo_form) (sv_name (write_name ''Ada''))
          \<noteq> sv_value (write_name ''Ada'')"
    by (simp add: hook_defs js_defs demo_defs ref_defs Let_def)
  moreover
  have "sv_name (write_name ''Ada'') = ''name''" "sv_value (write_name ''Ada'') = VStr ''Ada''"
    by (simp_all add: write_name_def)
  ultimately show ?thesis
    using setFormValue_defaults_and_overrides [of ref_engine "write_name ''Ada''" demo_form]
      ref_setValue_writes ref_setValue_marks_dirty
    by metis
qed

text \<open>
  C6 as stated fails twice. \<open>fieldState(name)\<close> has no member for the value: after writing
  \<open>Ada\<close> and after writing \<open>Bob\<close> it returns the same object. And the field is not always
  reported dirty: a caller who passes \<open>{shouldDirty: false}\<close> overrides the default, and
  the engine leaves the field clean.
\<close>

theorem setFormValue_fieldState_counterexample:
  "fieldState ref_engine ''name'' (setFormValue ref_engine (write_name ''Ada'') demo_form)
     = fieldState ref_engine ''name'' (setFormValue ref_engine (write_name ''Bob'') demo_form)
   \<and> \<not> isDirty (fieldState ref_engine ''name''
          (setFormValue ref_engine
             \<lparr> sv_name = ''name'', sv_value = VStr ''Ada'',
               sv_options = VObj (fmupd ''shouldDirty'' (VBool False) fmempty) \<rparr>
             demo_form))"
  by (simp add: hook_defs js_defs demo_defs ref_defs Let_def)

section \<open>fieldState\<close>

text \<open>
  C7. \<open>fieldState(name)\<close> passes on the engine's \<open>isDirty\<close>, \<open>isTouched\<close> and \<open>invalid\<close>; its
  \<open>error\<close> is the message of the engine's error when there is one, and the empty string
  when the error or its message is \<open>undefined\<close> or \<open>null\<close>. It is never \<open>undefined\<close> or \<open>null\<close>.
\<close>

theorem fieldState_error_normalised:
  "isDirty (fieldState inst n s) = fld_isDirty (rhf_getFieldState inst n s)
   \<and> isTouched (fieldState inst n s) = fld_isTouched (rhf_getFieldState inst n s)
   \<and> invalid (fieldState inst n s) = fld_invalid (rhf_getFieldState inst n s)
   \<and> error (fieldState inst n s)
       = (if nullish (opt_member (fld_error (rhf_getFieldState inst n s)) ''message'')
          then VStr []
          else opt_member (fld_error (rhf_getFieldState inst n s)) ''message'')
   \<and> error (fieldState inst n s) \<noteq> VUndefined
   \<and> error (fieldState inst n s) \<noteq> VNull"
  using fieldState_error_not_nullish [of inst n s]
  by (simp add: fieldState_def Let_def coalesce_def nullish_def)

theorem fieldState_error_normalised_witness:
  "error (fieldState ref_engine ''name'' demo_form) = VStr []
   \<and> error (fieldState ref_engine ''name'' (setFormValue ref_engine (write_name []) demo_form))
       = VStr ''This field is required''"
  using fieldState_error_normalised [of ref_engine "''name''" demo_form]
    fieldState_error_normalised
      [of ref_engine "''name''" "setFormValue ref_engine (write_name []) demo_form"]
  by (simp add: hook_defs js_defs demo_defs ref_defs Let_def)

section \<open>The props withBaseField injects\<close>

text \<open>
  C8. With a form handler attached, the \<open>error\<close> prop is \<open>fieldState(name).invalid\<close> and the
  \<open>helperText\<close> prop is \<open>fieldState(name).error\<close> of the handler, whatever the props passed;
  without one they are \<open>props.error\<close> and \<open>props.helperText\<close>.
\<close>

theorem WithFormHandlerField_prefers_handler:
  "injected_error (WithFormHandlerField props)
     = (case formhandler props of
          None \<Rightarrow> props_error props
        | Some h \<Rightarrow> VBool (invalid (fieldState (fst h) (name props) (snd h))))
   \<and> injected_helperText (WithFormHandlerField props)
     = (case formhandler props of
          None \<Rightarrow> props_helperText props
        | Some h \<Rightarrow> error (fieldState (fst h) (name props) (snd h)))"
proof (cases "formhandler props")
  case None
  then show ?thesis by (simp add: WithFormHandlerField_def coalesce_def nullish_def)
next
  case (Some h)
  have "\<not> nullish (error (fieldState (fst h) (name props) (snd h)))"
    by (rule fieldState_error_not_nullish)
  with Some show ?thesis by (simp add: WithFormHandlerField_def coalesce_def nullish_def)
qed

text \<open>
  On the new demo form the field \<open>name\<close> has no error: the injected helper text is the
  empty string, not the hint passed as a prop.
\<close>

theorem WithFormHandlerField_prefers_handler_witness:
  "injected_helperText
     (WithFormHandlerField
        \<lparr> formhandler = Some (ref_engine, demo_form), name = ''name'',
          props_error = VBool True, props_helperText = VStr ''hint'' \<rparr>) = VStr []
   \<and> injected_error
     (WithFormHandlerField
        \<lparr> formhandler = Some (ref_engine, demo_form), name = ''name'',
          props_error = VBool True, props_helperText = VStr ''hint'' \<rparr>) = VBool False
   \<and> injected_helperText
     (WithFormHandlerField
        \<lparr> formhandler = (None :: engine_state formhandler option), name = ''name'',
          props_error = VBool True, props_helperText = VStr ''hint'' \<rparr>) = VStr ''hint''"
  using WithFormHandlerField_prefers_handler
      [of "\<lparr> formhandler = Some (ref_engine, demo_form), name = ''name'',
          props_error = VBool True, props_helperText = VStr ''hint'' \<rparr>"]
    WithFormHandlerField_prefers_handler
      [of "\<lparr> formhandler = (None :: engine_state formhandler option), name = ''name'',
          props_error = VBool True, props_helperText = VStr ''hint'' \<rparr>"]
  by (simp add: hook_defs js_defs demo_defs ref_defs Let_def)

section \<open>Reading the context outside a provider\<close>

text \<open>
  C10. Outside every provider \<open>useDemoFormContext\<close> returns the default of the context, the
  empty object. Nothing is thrown, and reading \<open>formHandler\<close> or \<open>mode\<close> of the result
  yields \<open>undefined\<close>.
\<close>

theorem useDemoFormContext_outside_provider:
  "useDemoFormContext [] = VObj fmempty
   \<and> member (useDemoFormContext []) ''formHandler'' = Inr VUndefined
   \<and> member (useDemoFormContext []) ''mode'' = Inr VUndefined"
  by (simp add: useDemoFormContext_def DemoFormContext_def createContext_def member_def
        nullish_def)

end
